theory Spec2Isabelle
  imports Main
begin

section \<open>JavaScript values\<close>

text \<open>
  Request fields (\<^verbatim>\<open>req.body.*\<close>, \<^verbatim>\<open>req.query.*\<close>) and row identifiers are
  JavaScript values. Express's \<^verbatim>\<open>json()\<close> and \<^verbatim>\<open>urlencoded({extended: true})\<close>
  parsers may deliver strings, numbers, booleans, null, arrays and objects; an absent
  field reads as \<^verbatim>\<open>undefined\<close>. Arrays and objects are opaque here (\<open>JObj\<close>):
  the routes only test their truthiness and pass them on. Numbers are integers;
  NaN and fractions are outside the model.
\<close>

datatype jsval = JUndefined | JNull | JBool bool | JNum int | JStr string | JObj nat

text \<open>JavaScript's ToBoolean, as used by \<^verbatim>\<open>!x\<close>, \<^verbatim>\<open>x || y\<close> and \<^verbatim>\<open>if (x)\<close>.\<close>

fun truthy :: "jsval \<Rightarrow> bool" where
  "truthy JUndefined = False"
| "truthy JNull = False"
| "truthy (JBool b) = b"
| "truthy (JNum n) = (n \<noteq> 0)"
| "truthy (JStr s) = (s \<noteq> [])"
| "truthy (JObj _) = True"

section \<open>Node's \<^verbatim>\<open>path\<close> module (POSIX flavour)\<close>

text \<open>
  \<^verbatim>\<open>path.join\<close> and \<^verbatim>\<open>path.extname\<close> are library functions of Node.js; the routes
  call them on client-supplied text, so their normalisation is written out. A path is
  a \<open>string\<close>; the separator is \<^verbatim>\<open>/\<close>.
\<close>

fun split_path :: "string \<Rightarrow> string list" where
  "split_path [] = [[]]"
| "split_path (c # cs) =
     (case split_path cs of
        [] \<Rightarrow> [[c]]
      | seg # segs \<Rightarrow> if c = CHR ''/'' then [] # seg # segs else (c # seg) # segs)"

fun join_segments :: "string list \<Rightarrow> string" where
  "join_segments [] = []"
| "join_segments [s] = s"
| "join_segments (s # t # ss) = s @ ''/'' @ join_segments (t # ss)"

text \<open>
  \<^verbatim>\<open>normalizeString(path, allowAboveRoot)\<close>: empty and \<^verbatim>\<open>.\<close> segments are dropped,
  \<^verbatim>\<open>..\<close> removes the segment before it unless that is itself \<^verbatim>\<open>..\<close> or there is
  none (then it is kept when \<open>allowAboveRoot\<close> is set and dropped otherwise). \<open>res\<close> is the
  result so far, last segment first.
\<close>

fun normalizeString :: "bool \<Rightarrow> string list \<Rightarrow> string list \<Rightarrow> string list" where
  "normalizeString allowAboveRoot res [] = rev res"
| "normalizeString allowAboveRoot res (seg # segs) =
     (if seg = [] \<or> seg = ''.'' then normalizeString allowAboveRoot res segs
      else if seg = ''..'' then
        (case res of
           [] \<Rightarrow> normalizeString allowAboveRoot (if allowAboveRoot then [''..''] else []) segs
         | r # rs \<Rightarrow>
             if r \<noteq> ''..'' then normalizeString allowAboveRoot rs segs
             else normalizeString allowAboveRoot (if allowAboveRoot then ''..'' # res else res) segs)
      else normalizeString allowAboveRoot (seg # res) segs)"

definition normalize :: "string \<Rightarrow> string" where
  "normalize p =
     (if p = [] then ''.''
      else
        let isAbsolute = (hd p = CHR ''/'');
            trailingSeparator = (last p = CHR ''/'');
            segs = normalizeString (\<not> isAbsolute) [] (split_path p)
        in if segs = [] then
             (if isAbsolute then ''/'' else if trailingSeparator then ''./'' else ''.'')
           else
             (if isAbsolute then ''/'' else []) @ join_segments segs
               @ (if trailingSeparator then ''/'' else []))"

definition path_join :: "string list \<Rightarrow> string" where
  "path_join args =
     (let parts = filter (\<lambda>a. a \<noteq> []) args
      in if parts = [] then ''.'' else normalize (join_segments parts))"

text \<open>
  \<^verbatim>\<open>path.extname\<close>: trailing separators are ignored, the last component is taken, and
  the extension runs from its last dot to its end; it is empty when there is no dot,
  when the last dot is the component's first character, and for the component
  \<^verbatim>\<open>..\<close>.
\<close>

definition last_component :: "string \<Rightarrow> string" where
  "last_component p =
     rev (takeWhile (\<lambda>c. c \<noteq> CHR ''/'') (dropWhile (\<lambda>c. c = CHR ''/'') (rev p)))"

definition extname :: "string \<Rightarrow> string" where
  "extname p =
     (let comp = last_component p;
          after_dot = takeWhile (\<lambda>c. c \<noteq> CHR ''.'') (rev comp);
          upto_dot = dropWhile (\<lambda>c. c \<noteq> CHR ''.'') (rev comp)
      in if upto_dot = [] then []
         else if tl upto_dot = [] then []
         else if comp = ''..'' then []
         else CHR ''.'' # rev after_dot)"

section \<open>The world the routes act on\<close>

text \<open>
  What the routes observe of a file is its size and whether SQLite's read-only open
  succeeds on it.
\<close>

record file_data =
  fsize :: nat
  sqlite_ok :: bool

text \<open>Calls made on the file system, on multer's disk storage, on SQLite and on the
  session global, in the order the route issues them.\<close>

datatype call =
    FsRename string string
  | FsUnlink string
  | DiskWrite string
  | DiskRemove string
  | SqliteOpen string
  | SqliteClose string
  | SetGlobal string

text \<open>
  \<open>files\<close> is the file system (absolute path to content), \<open>dbPath\<close> is
  \<^verbatim>\<open>global.dbPath\<close> (\<open>None\<close> is \<^verbatim>\<open>undefined\<close>), \<open>handles\<close> counts the open SQLite
  connections per path. Each route runs to completion, callbacks included, before
  the next one starts; interleavings of concurrent requests are outside the model.
\<close>

record world =
  files :: "string \<rightharpoonup> file_data"
  dbPath :: "string option"
  handles :: "string \<Rightarrow> nat"
  calls :: "call list"

datatype io_error = ENOENT

text \<open>
  \<^verbatim>\<open>fs.unlink\<close> and \<^verbatim>\<open>fs.rename\<close> fail exactly when the path they act on is absent;
  faults of the medium (permissions, busy files) are outside the model. A rename
  replaces an existing target. The world holds regular files only: a rename whose
  source is a directory, or whose target lies in a missing directory, is not covered.
\<close>

definition fs_unlink :: "string \<Rightarrow> world \<Rightarrow> io_error option \<times> world" where
  "fs_unlink p w =
     (case files w p of
        None \<Rightarrow> (Some ENOENT, w\<lparr>calls := calls w @ [FsUnlink p]\<rparr>)
      | Some _ \<Rightarrow>
          (None, w\<lparr>files := (files w)(p := None), calls := calls w @ [FsUnlink p]\<rparr>))"

definition fs_rename :: "string \<Rightarrow> string \<Rightarrow> world \<Rightarrow> io_error option \<times> world" where
  "fs_rename old new w =
     (case files w old of
        None \<Rightarrow> (Some ENOENT, w\<lparr>calls := calls w @ [FsRename old new]\<rparr>)
      | Some d \<Rightarrow>
          (None, w\<lparr>files := ((files w)(old := None))(new \<mapsto> d),
                   calls := calls w @ [FsRename old new]\<rparr>))"

definition set_global :: "string \<Rightarrow> world \<Rightarrow> world" where
  "set_global p w = w\<lparr>dbPath := Some p, calls := calls w @ [SetGlobal p]\<rparr>"

text \<open>
  \<^verbatim>\<open>new sqlite3.Database(p, OPEN_READONLY, cb)\<close>: the callback receives an error when
  the file is absent or is refused by SQLite; a failed open leaves no connection
  behind, a successful one holds a connection on \<open>p\<close> until it is closed.
\<close>

definition sqlite_open :: "string \<Rightarrow> world \<Rightarrow> bool \<times> world" where
  "sqlite_open p w =
     (case files w p of
        Some d \<Rightarrow>
          if sqlite_ok d
          then (True, w\<lparr>handles := (handles w)(p := handles w p + 1),
                        calls := calls w @ [SqliteOpen p]\<rparr>)
          else (False, w\<lparr>calls := calls w @ [SqliteOpen p]\<rparr>)
      | None \<Rightarrow> (False, w\<lparr>calls := calls w @ [SqliteOpen p]\<rparr>))"

definition sqlite_close :: "string \<Rightarrow> world \<Rightarrow> world" where
  "sqlite_close p w =
     w\<lparr>handles := (handles w)(p := handles w p - 1), calls := calls w @ [SqliteClose p]\<rparr>"

section \<open>Responses\<close>

text \<open>
  \<open>Send st body\<close> is \<^verbatim>\<open>res.status(st).send(body)\<close>, \<open>Redirect\<close> is
  \<^verbatim>\<open>res.redirect\<close>, and \<open>Uncaught\<close> is an exception thrown inside the handler and
  left to Express's error handler.
\<close>

datatype reply = Send nat string | Redirect string | Uncaught string

section \<open>The file routes of \<^verbatim>\<open>routes/index.js\<close>\<close>

text \<open>\<open>dirname\<close> is \<^verbatim>\<open>__dirname\<close>, the directory of the routes module.\<close>

definition uploadsDir :: "string \<Rightarrow> string" where
  "uploadsDir dirname = path_join [dirname, ''..'', ''uploads'']"

text \<open>\<^verbatim>\<open>router.post('/select-database')\<close>; \<^verbatim>\<open>path.join\<close> throws a TypeError on an
  argument that is not a string.\<close>

definition select_database :: "string \<Rightarrow> world \<Rightarrow> jsval \<Rightarrow> world \<times> reply" where
  "select_database dirname w selectedDatabase =
     (if \<not> truthy selectedDatabase then (w, Send 400 ''No database selected'')
      else case selectedDatabase of
        JStr name \<Rightarrow>
          (set_global (path_join [uploadsDir dirname, name]) w, Redirect ''/projects'')
      | _ \<Rightarrow> (w, Uncaught ''TypeError''))"

text \<open>\<^verbatim>\<open>router.post('/rename-database')\<close>\<close>

definition rename_database :: "string \<Rightarrow> world \<Rightarrow> jsval \<Rightarrow> jsval \<Rightarrow> world \<times> reply" where
  "rename_database dirname w oldName newName =
     (if \<not> truthy oldName \<or> \<not> truthy newName
      then (w, Send 400 ''Old name and new name must be provided'')
      else case (oldName, newName) of
        (JStr old, JStr new) \<Rightarrow>
          (case fs_rename (path_join [uploadsDir dirname, old])
                          (path_join [uploadsDir dirname, new]) w of
             (Some err, w') \<Rightarrow> (w', Send 500 ''Error renaming database'')
           | (None, w') \<Rightarrow> (w', Redirect ''/''))
      | _ \<Rightarrow> (w, Uncaught ''TypeError''))"

text \<open>\<^verbatim>\<open>router.post('/delete-database')\<close>\<close>

definition delete_database :: "string \<Rightarrow> world \<Rightarrow> jsval \<Rightarrow> world \<times> reply" where
  "delete_database dirname w databaseName =
     (if \<not> truthy databaseName
      then (w, Send 400 ''Database name is required for deletion.'')
      else case databaseName of
        JStr name \<Rightarrow>
          (let dbp = path_join [uploadsDir dirname, name]
           in if dbPath w = Some dbp
              then (w, Send 400 ''Deletion of the currently loaded database is not allowed.'')
              else case fs_unlink dbp w of
                     (Some err, w') \<Rightarrow> (w', Send 500 ''Error deleting database file.'')
                   | (None, w') \<Rightarrow> (w', Redirect ''/''))
      | _ \<Rightarrow> (w, Uncaught ''TypeError''))"

section \<open>The upload route\<close>

text \<open>
  The multipart file part, as multer hands it to \<^verbatim>\<open>fileFilter\<close> and \<^verbatim>\<open>filename\<close>,
  with the content that streams in behind it.
\<close>

record incoming =
  fieldname :: string
  originalname :: string
  content :: file_data

text \<open>\<^verbatim>\<open>String.prototype.toLowerCase\<close> on the ASCII letters.\<close>

definition lower_char :: "char \<Rightarrow> char" where
  "lower_char c =
     (let n = (of_char c :: nat) in if 65 \<le> n \<and> n \<le> 90 then char_of (n + 32) else c)"

definition toLowerCase :: "string \<Rightarrow> string" where
  "toLowerCase s = map lower_char s"

definition ends_with :: "string \<Rightarrow> string \<Rightarrow> bool" where
  "ends_with suffix s =
     (length suffix \<le> length s \<and> drop (length s - length suffix) s = suffix)"

text \<open>The regular expression \<^verbatim>\<open>/\.(sqlite|sqlite3|db)$/\<close>.\<close>

definition filetypes_test :: "string \<Rightarrow> bool" where
  "filetypes_test s =
     (ends_with ''.sqlite'' s \<or> ends_with ''.sqlite3'' s \<or> ends_with ''.db'' s)"

text \<open>\<^verbatim>\<open>fileFilter\<close>: \<open>True\<close> is \<^verbatim>\<open>cb(null, true)\<close>, \<open>False\<close> is \<^verbatim>\<open>cb(new Error(...))\<close>.\<close>

definition fileFilter :: "incoming \<Rightarrow> bool" where
  "fileFilter file =
     (filetypes_test (toLowerCase (extname (originalname file)))
      \<or> extname (originalname file) = [])"

definition fileFilter_message :: string where
  "fileFilter_message =
     ''Error: File upload only supports the following filetypes - .db, .sqlite, .sqlite3 or files without an extension''"

text \<open>The decimal text of a number, as string concatenation with \<^verbatim>\<open>Date.now()\<close> gives.\<close>

definition digit_char :: "nat \<Rightarrow> char" where
  "digit_char k = char_of (of_char CHR ''0'' + k)"

fun string_of_nat :: "nat \<Rightarrow> string" where
  "string_of_nat n =
     (let units = digit_char (n mod 10)
      in if n < 10 then [units] else string_of_nat (n div 10) @ [units])"

declare string_of_nat.simps [simp del]

text \<open>The storage engine's \<^verbatim>\<open>filename\<close>; \<open>now\<close> is \<^verbatim>\<open>Date.now()\<close>.\<close>

definition storage_filename :: "nat \<Rightarrow> incoming \<Rightarrow> string" where
  "storage_filename now file =
     fieldname file @ ''-'' @ string_of_nat now
       @ (if extname (originalname file) \<noteq> [] then extname (originalname file) else [])"

definition fileSize_limit :: nat where
  "fileSize_limit = 1000000000"

datatype multer_result = MulterError string | NoFile | Stored string

text \<open>
  \<^verbatim>\<open>multer({storage, fileFilter, limits}).single('databaseFile')\<close> on a request with at
  most one file part. A part under another field name is refused before the filter
  runs; an accepted part is written to \<^verbatim>\<open>path.join(destination, filename)\<close>; a part
  larger than the limit is cut off, and multer removes what it wrote and reports
  \<^verbatim>\<open>File too large\<close>. \<open>Stored\<close> carries \<^verbatim>\<open>req.file.filename\<close>.
\<close>

definition upload :: "string \<Rightarrow> nat \<Rightarrow> incoming option \<Rightarrow> world \<Rightarrow> multer_result \<times> world" where
  "upload dirname now part w =
     (case part of
        None \<Rightarrow> (NoFile, w)
      | Some file \<Rightarrow>
          if fieldname file \<noteq> ''databaseFile'' then (MulterError ''Unexpected field'', w)
          else if \<not> fileFilter file then (MulterError fileFilter_message, w)
          else
            let target = path_join [uploadsDir dirname, storage_filename now file]
            in if fileSize_limit < fsize (content file)
               then (MulterError ''File too large'',
                     w\<lparr>files := (files w)(target := None),
                       calls := calls w @ [DiskWrite target, DiskRemove target]\<rparr>)
               else (Stored (storage_filename now file),
                     w\<lparr>files := (files w)(target \<mapsto> content file),
                       calls := calls w @ [DiskWrite target]\<rparr>))"

text \<open>
  \<^verbatim>\<open>router.post('/upload')\<close>. On a failed open the file is unlinked and the unlink's
  outcome is only logged.
\<close>

definition post_upload :: "string \<Rightarrow> nat \<Rightarrow> incoming option \<Rightarrow> world \<Rightarrow> world \<times> reply" where
  "post_upload dirname now part w =
     (case upload dirname now part w of
        (MulterError message, w1) \<Rightarrow> (w1, Send 500 message)
      | (NoFile, w1) \<Rightarrow> (w1, Send 400 ''Error: No file selected'')
      | (Stored filename, w1) \<Rightarrow>
          let dbp = path_join [uploadsDir dirname, filename]
          in case sqlite_open dbp w1 of
               (False, w2) \<Rightarrow>
                 (snd (fs_unlink dbp w2),
                  Send 400 ''Error: Uploaded file is not a valid SQLite database'')
             | (True, w2) \<Rightarrow>
                 (set_global dbp (sqlite_close dbp w2), Redirect ''/projects''))"

section \<open>The projects route\<close>

text \<open>
  A project or branch row, as far as the route reads it: its \<^verbatim>\<open>id\<close> and the time
  value of \<^verbatim>\<open>new Date(created_at)\<close> in milliseconds. Rows whose date does not parse
  are outside the model.
\<close>

record row =
  row_id :: jsval
  created_at :: int

text \<open>The filter fields of the query string, the criteria object handed to the search,
  and the query itself.\<close>

record filters =
  task :: jsval
  epic :: jsval
  iteration :: jsval
  llm_request :: jsval
  agent :: jsval

record criteria = filters +
  branchId :: jsval

record query = criteria +
  projectId :: jsval

text \<open>
  The query functions of \<^verbatim>\<open>utils/projectQueries\<close>, taken as parameters; \<open>Inl\<close> is a
  rejected promise. Project states are opaque to the route.
\<close>

record 's provider =
  getProjects :: "string \<Rightarrow> string + row list"
  getBranchesByProjectId :: "string \<Rightarrow> jsval \<Rightarrow> string + row list"
  getProjectStatesByBranchId :: "string \<Rightarrow> jsval \<Rightarrow> string + 's list"
  searchProjectStates :: "string \<Rightarrow> criteria \<Rightarrow> string + 's list"

text \<open>The payload of \<^verbatim>\<open>res.render('projects', ...)\<close>.\<close>

record 's view = filters +
  projects :: "row list"
  branches :: "row list"
  projectStates :: "'s list"
  selectedProjectId :: jsval
  selectedBranchId :: jsval

datatype 's page = Rendered "'s view" | Failed nat string

text \<open>
  \<^verbatim>\<open>rows.sort((a, b) => new Date(b.created_at) - new Date(a.created_at))\<close>: latest
  first; \<^verbatim>\<open>Array.prototype.sort\<close> is stable, so rows of equal date keep the
  provider's order.
\<close>

definition sort_latest_first :: "row list \<Rightarrow> row list" where
  "sort_latest_first rows = sort_key (\<lambda>r. - created_at r) rows"

definition render_projects ::
  "query \<Rightarrow> row list \<Rightarrow> row list \<Rightarrow> 's list \<Rightarrow> jsval \<Rightarrow> jsval \<Rightarrow> 's page" where
  "render_projects q ps bs states pid bid =
     Rendered \<lparr>task = task q, epic = epic q, iteration = iteration q,
               llm_request = llm_request q, agent = agent q,
               projects = ps, branches = bs, projectStates = states,
               selectedProjectId = pid, selectedBranchId = bid\<rparr>"

text \<open>\<^verbatim>\<open>router.get('/projects')\<close>; any rejected query is caught and answered with 500.\<close>

definition get_projects :: "'s provider \<Rightarrow> world \<Rightarrow> query \<Rightarrow> 's page" where
  "get_projects pr w q =
     (case dbPath w of
        None \<Rightarrow> Failed 400 ''No database file specified.''
      | Some dbp \<Rightarrow>
          if dbp = [] then Failed 400 ''No database file specified.''
          else case getProjects pr dbp of
            Inl err \<Rightarrow> Failed 500 ''Error fetching data''
          | Inr ps \<Rightarrow>
              let projects = sort_latest_first ps
              in if \<not> truthy (projectId q) \<and> projects \<noteq> [] then
                   (let selectedProjectId = row_id (hd projects)
                    in case getBranchesByProjectId pr dbp selectedProjectId of
                         Inl err \<Rightarrow> Failed 500 ''Error fetching data''
                       | Inr bs \<Rightarrow>
                           let branches = sort_latest_first bs;
                               selectedBranchId =
                                 (if branches \<noteq> [] then row_id (hd branches) else branchId q)
                           in render_projects q projects branches []
                                selectedProjectId selectedBranchId)
                 else if truthy (projectId q) then
                   (case getBranchesByProjectId pr dbp (projectId q) of
                      Inl err \<Rightarrow> Failed 500 ''Error fetching data''
                    | Inr bs \<Rightarrow>
                        let branches = sort_latest_first bs;
                            selectedBranchId =
                              (if branches \<noteq> [] then row_id (hd branches) else branchId q)
                        in if truthy selectedBranchId then
                             (case (if truthy (task q) \<or> truthy (epic q)
                                       \<or> truthy (iteration q) \<or> truthy (agent q)
                                    then searchProjectStates pr dbp
                                           \<lparr>task = task q, epic = epic q,
                                            iteration = iteration q,
                                            llm_request = llm_request q, agent = agent q,
                                            branchId = selectedBranchId\<rparr>
                                    else getProjectStatesByBranchId pr dbp selectedBranchId) of
                                Inl err \<Rightarrow> Failed 500 ''Error fetching data''
                              | Inr states \<Rightarrow>
                                  render_projects q projects branches states
                                    (projectId q) selectedBranchId)
                           else render_projects q projects branches []
                                  (projectId q) selectedBranchId)
                 else render_projects q projects [] [] (projectId q) (branchId q))"

section \<open>Predicates of the specification\<close>

text \<open>A client error is a response with a 4xx status.\<close>

definition is_client_error :: "reply \<Rightarrow> bool" where
  "is_client_error r = (case r of Send st _ \<Rightarrow> 400 \<le> st \<and> st < 500 | _ \<Rightarrow> False)"

text \<open>A normalised path lies inside a directory when it extends the directory's path
  by a separator.\<close>

definition within_dir :: "string \<Rightarrow> string \<Rightarrow> bool" where
  "within_dir dir p = (take (length dir + 1) p = dir @ ''/'')"


section \<open>Example data\<close>

text \<open>An installation under \<^verbatim>\<open>/app\<close> with two stored databases, the first one active.\<close>

definition example_world :: world where
  "example_world =
     \<lparr>files = [''/app/uploads/a.db'' \<mapsto> \<lparr>fsize = 4096, sqlite_ok = True\<rparr>,
               ''/app/uploads/b.db'' \<mapsto> \<lparr>fsize = 8192, sqlite_ok = True\<rparr>],
      dbPath = Some ''/app/uploads/a.db'',
      handles = (\<lambda>_. 0),
      calls = []\<rparr>"

text \<open>The same installation with a file next to, not inside, the uploads directory.\<close>

definition outside_world :: world where
  "outside_world =
     \<lparr>files = [''/app/uploads/a.db'' \<mapsto> \<lparr>fsize = 4096, sqlite_ok = True\<rparr>,
               ''/app/secret.db'' \<mapsto> \<lparr>fsize = 512, sqlite_ok = True\<rparr>],
      dbPath = Some ''/app/uploads/a.db'',
      handles = (\<lambda>_. 0),
      calls = []\<rparr>"

text \<open>Four uploads: bytes that SQLite refuses, a database, a text file, and a database
  one byte over the size limit.\<close>

definition junk_upload :: incoming where
  "junk_upload = \<lparr>fieldname = ''databaseFile'', originalname = ''junk.db'',
                   content = \<lparr>fsize = 10, sqlite_ok = False\<rparr>\<rparr>"

definition good_upload :: incoming where
  "good_upload = \<lparr>fieldname = ''databaseFile'', originalname = ''Good.SQLite'',
                   content = \<lparr>fsize = 4096, sqlite_ok = True\<rparr>\<rparr>"

definition report_upload :: incoming where
  "report_upload = \<lparr>fieldname = ''databaseFile'', originalname = ''report.txt'',
                     content = \<lparr>fsize = 4096, sqlite_ok = True\<rparr>\<rparr>"

definition huge_upload :: incoming where
  "huge_upload = \<lparr>fieldname = ''databaseFile'', originalname = ''huge.db'',
                   content = \<lparr>fsize = 1000000001, sqlite_ok = True\<rparr>\<rparr>"

text \<open>
  A database with project \<^verbatim>\<open>p2\<close> created at time 1000 and project \<^verbatim>\<open>p1\<close> created at
  time 2000; \<^verbatim>\<open>p1\<close> has the single branch \<^verbatim>\<open>b1\<close>, which has two states, one of them
  matching the task filter \<^verbatim>\<open>fix\<close>.
\<close>

definition example_provider :: "string provider" where
  "example_provider =
     \<lparr>getProjects = (\<lambda>db. Inr [\<lparr>row_id = JStr ''p2'', created_at = 1000\<rparr>,
                               \<lparr>row_id = JStr ''p1'', created_at = 2000\<rparr>]),
      getBranchesByProjectId =
        (\<lambda>db pid. if pid = JStr ''p1'' then Inr [\<lparr>row_id = JStr ''b1'', created_at = 2500\<rparr>]
                   else Inr []),
      getProjectStatesByBranchId =
        (\<lambda>db bid. if bid = JStr ''b1'' then Inr [''state-1'', ''state-2''] else Inr []),
      searchProjectStates =
        (\<lambda>db c. if branchId c = JStr ''b1'' \<and> task c = JStr ''fix'' then Inr [''state-2'']
                 else Inr [])\<rparr>"

text \<open>
  A database with the single project \<^verbatim>\<open>p1\<close>, whose branches the provider returns as
  \<^verbatim>\<open>b1\<close> (created at 2500) before \<^verbatim>\<open>b2\<close> (created at 3000); each branch has states
  of its own.
\<close>

definition two_branch_provider :: "string provider" where
  "two_branch_provider =
     \<lparr>getProjects = (\<lambda>db. Inr [\<lparr>row_id = JStr ''p1'', created_at = 2000\<rparr>]),
      getBranchesByProjectId =
        (\<lambda>db pid. if pid = JStr ''p1''
                   then Inr [\<lparr>row_id = JStr ''b1'', created_at = 2500\<rparr>,
                             \<lparr>row_id = JStr ''b2'', created_at = 3000\<rparr>]
                   else Inr []),
      getProjectStatesByBranchId =
        (\<lambda>db bid. if bid = JStr ''b1'' then Inr [''state-1'', ''state-2'']
                   else if bid = JStr ''b2'' then Inr [''state-3'']
                   else Inr []),
      searchProjectStates = (\<lambda>db c. Inr [])\<rparr>"

text \<open>A browse request without query parameters.\<close>

definition no_params :: query where
  "no_params = \<lparr>task = JUndefined, epic = JUndefined, iteration = JUndefined,
                 llm_request = JUndefined, agent = JUndefined, branchId = JUndefined,
                 projectId = JUndefined\<rparr>"

section \<open>Evaluating the example data\<close>

lemma uploadsDir_app: "uploadsDir ''/app/routes'' = ''/app/uploads''"
  by code_simp

lemma join_a_db: "path_join [''/app/uploads'', ''a.db''] = ''/app/uploads/a.db''"
  by code_simp

lemma join_b_db: "path_join [''/app/uploads'', ''b.db''] = ''/app/uploads/b.db''"
  by code_simp



lemma join_secret: "path_join [''/app/uploads'', ''../secret.db''] = ''/app/secret.db''"
  by code_simp

lemma join_stored_junk:
  "path_join [''/app/uploads'', ''databaseFile-17.db''] = ''/app/uploads/databaseFile-17.db''"
  by code_simp

lemma join_stored_good:
  "path_join [''/app/uploads'', ''databaseFile-17.SQLite'']
   = ''/app/uploads/databaseFile-17.SQLite''"
  by code_simp

lemma secret_outside: "\<not> within_dir ''/app/uploads'' ''/app/secret.db''"
  by (simp add: within_dir_def)

lemma extname_junk: "extname ''junk.db'' = ''.db''"
  by code_simp

lemma extname_good: "extname ''Good.SQLite'' = ''.SQLite''"
  by code_simp

lemma extname_report: "extname ''report.txt'' = ''.txt''"
  by code_simp

lemma extname_huge: "extname ''huge.db'' = ''.db''"
  by code_simp

lemma filetypes_db: "filetypes_test (toLowerCase ''.db'')"
  by code_simp

lemma filetypes_sqlite: "filetypes_test (toLowerCase ''.SQLite'')"
  by code_simp

lemma filetypes_txt: "\<not> filetypes_test (toLowerCase ''.txt'')"
  by code_simp

lemma fileFilter_junk: "fileFilter junk_upload"
  by (simp add: fileFilter_def junk_upload_def extname_junk filetypes_db)

lemma fileFilter_good: "fileFilter good_upload"
  by (simp add: fileFilter_def good_upload_def extname_good filetypes_sqlite)

lemma fileFilter_huge: "fileFilter huge_upload"
  by (simp add: fileFilter_def huge_upload_def extname_huge filetypes_db)

lemma fileFilter_report: "\<not> fileFilter report_upload"
  by (simp add: fileFilter_def report_upload_def extname_report filetypes_txt)

lemma string_of_17: "string_of_nat 17 = ''17''"
  by code_simp

lemma filename_junk: "storage_filename 17 junk_upload = ''databaseFile-17.db''"
  by (simp add: storage_filename_def junk_upload_def extname_junk string_of_17)

lemma filename_good: "storage_filename 17 good_upload = ''databaseFile-17.SQLite''"
  by (simp add: storage_filename_def good_upload_def extname_good string_of_17)

lemma example_projects_sorted:
  "sort_latest_first [\<lparr>row_id = JStr ''p2'', created_at = 1000\<rparr>,
                      \<lparr>row_id = JStr ''p1'', created_at = 2000\<rparr>]
   = [\<lparr>row_id = JStr ''p1'', created_at = 2000\<rparr>, \<lparr>row_id = JStr ''p2'', created_at = 1000\<rparr>]"
  by (simp add: sort_latest_first_def)

lemma example_branches_sorted:
  "sort_latest_first [\<lparr>row_id = JStr ''b1'', created_at = 2500\<rparr>]
   = [\<lparr>row_id = JStr ''b1'', created_at = 2500\<rparr>]"
  by (simp add: sort_latest_first_def)



lemma two_branches_sorted:
  "sort_latest_first [\<lparr>row_id = JStr ''b1'', created_at = 2500\<rparr>,
                      \<lparr>row_id = JStr ''b2'', created_at = 3000\<rparr>]
   = [\<lparr>row_id = JStr ''b2'', created_at = 3000\<rparr>, \<lparr>row_id = JStr ''b1'', created_at = 2500\<rparr>]"
  by (simp add: sort_latest_first_def)

lemma one_project_sorted:
  "sort_latest_first [\<lparr>row_id = JStr ''p1'', created_at = 2000\<rparr>]
   = [\<lparr>row_id = JStr ''p1'', created_at = 2000\<rparr>]"
  by (simp add: sort_latest_first_def)

section \<open>Plain names stay inside the uploads directory\<close>




















section \<open>The paths through the upload route\<close>

text \<open>One equation for each way a request leaves \<^verbatim>\<open>router.post('/upload')\<close>.\<close>

lemma post_upload_none: "post_upload d now None w = (w, Send 400 ''Error: No file selected'')"
  by (simp add: post_upload_def upload_def)


lemma post_upload_filtered:
  "fieldname file = ''databaseFile'' \<Longrightarrow> \<not> fileFilter file \<Longrightarrow>
   post_upload d now (Some file) w = (w, Send 500 fileFilter_message)"
  by (simp add: post_upload_def upload_def)

lemma post_upload_oversize:
  "fieldname file = ''databaseFile'' \<Longrightarrow> fileFilter file \<Longrightarrow>
   fileSize_limit < fsize (content file) \<Longrightarrow>
   post_upload d now (Some file) w =
     (w\<lparr>files := (files w)(path_join [uploadsDir d, storage_filename now file] := None),
        calls := calls w @ [DiskWrite (path_join [uploadsDir d, storage_filename now file]),
                            DiskRemove (path_join [uploadsDir d, storage_filename now file])]\<rparr>,
      Send 500 ''File too large'')"
  by (simp add: post_upload_def upload_def Let_def)

lemma post_upload_invalid:
  "fieldname file = ''databaseFile'' \<Longrightarrow> fileFilter file \<Longrightarrow>
   fsize (content file) \<le> fileSize_limit \<Longrightarrow> \<not> sqlite_ok (content file) \<Longrightarrow>
   post_upload d now (Some file) w =
     (w\<lparr>files := (files w)(path_join [uploadsDir d, storage_filename now file] := None),
        calls := calls w @ [DiskWrite (path_join [uploadsDir d, storage_filename now file]),
                            SqliteOpen (path_join [uploadsDir d, storage_filename now file]),
                            FsUnlink (path_join [uploadsDir d, storage_filename now file])]\<rparr>,
      Send 400 ''Error: Uploaded file is not a valid SQLite database'')"
  by (simp add: post_upload_def upload_def Let_def sqlite_open_def fs_unlink_def)

lemma post_upload_valid:
  "fieldname file = ''databaseFile'' \<Longrightarrow> fileFilter file \<Longrightarrow>
   fsize (content file) \<le> fileSize_limit \<Longrightarrow> sqlite_ok (content file) \<Longrightarrow>
   post_upload d now (Some file) w =
     (w\<lparr>files := (files w)(path_join [uploadsDir d, storage_filename now file] \<mapsto> content file),
        dbPath := Some (path_join [uploadsDir d, storage_filename now file]),
        calls := calls w @ [DiskWrite (path_join [uploadsDir d, storage_filename now file]),
                            SqliteOpen (path_join [uploadsDir d, storage_filename now file]),
                            SqliteClose (path_join [uploadsDir d, storage_filename now file]),
                            SetGlobal (path_join [uploadsDir d, storage_filename now file])]\<rparr>,
      Redirect ''/projects'')"
  by (simp add: post_upload_def upload_def Let_def sqlite_open_def sqlite_close_def set_global_def)

text \<open>What multer leaves behind for an accepted file within the size limit.\<close>

lemma upload_stored:
  "fieldname file = ''databaseFile'' \<Longrightarrow> fileFilter file \<Longrightarrow>
   fsize (content file) \<le> fileSize_limit \<Longrightarrow>
   upload d now (Some file) w =
     (Stored (storage_filename now file),
      w\<lparr>files := (files w)(path_join [uploadsDir d, storage_filename now file] \<mapsto> content file),
        calls := calls w @ [DiskWrite (path_join [uploadsDir d, storage_filename now file])]\<rparr>)"
  by (simp add: upload_def Let_def)


section \<open>Latest-first ordering\<close>

text \<open>
  The head of the sorted rows is one of the rows, none is later, and among the rows of
  its date it is the first in the provider's order.
\<close>

lemma sort_latest_first_hd:
  assumes "rows \<noteq> []"
  shows "hd (sort_latest_first rows) \<in> set rows"
    and "\<forall>r\<in>set rows. created_at r \<le> created_at (hd (sort_latest_first rows))"
    and "hd (sort_latest_first rows)
           = hd (filter (\<lambda>r. created_at r = created_at (hd (sort_latest_first rows))) rows)"
proof -
  let ?f = "\<lambda>r. - created_at r"
  let ?ys = "sort_key ?f rows"
  from assms have "length ?ys \<noteq> 0" by simp
  then obtain y ys where ys: "?ys = y # ys" by (cases ?ys) auto
  have mem: "y \<in> set rows"
    using set_sort [of ?f rows] ys by auto
  have "sorted (map ?f ?ys)" by (rule sorted_sort_key)
  with ys have le: "\<forall>z\<in>set ys. ?f y \<le> ?f z" by simp
  have all: "\<forall>r\<in>set rows. created_at r \<le> created_at y"
  proof
    fix r assume "r \<in> set rows"
    then have "r \<in> set (y # ys)" using set_sort [of ?f rows] ys by simp
    with le show "created_at r \<le> created_at y" by auto
  qed
  have "filter (\<lambda>r. ?f r = ?f y) ?ys = filter (\<lambda>r. ?f r = ?f y) rows"
    by (rule sort_key_stable)
  with ys have "y # filter (\<lambda>r. ?f r = ?f y) ys = filter (\<lambda>r. ?f r = ?f y) rows"
    by simp
  then have "hd (filter (\<lambda>r. ?f r = ?f y) rows) = y"
    by (metis list.sel(1))
  then have first: "y = hd (filter (\<lambda>r. created_at r = created_at y) rows)"
    by simp
  show "hd (sort_latest_first rows) \<in> set rows"
    using mem ys by (simp add: sort_latest_first_def)
  show "\<forall>r\<in>set rows. created_at r \<le> created_at (hd (sort_latest_first rows))"
    using all ys by (simp add: sort_latest_first_def)
  show "hd (sort_latest_first rows)
           = hd (filter (\<lambda>r. created_at r = created_at (hd (sort_latest_first rows))) rows)"
    using first ys by (simp add: sort_latest_first_def)
qed

lemma sort_latest_first_Nil [simp]: "(sort_latest_first rows = []) = (rows = [])"
  by (metis length_0_conv length_sort sort_latest_first_def)

section \<open>The paths through the projects route\<close>

text \<open>Without a project id the latest project and its latest branch are preselected,
  and the state list is left empty.\<close>

lemma get_projects_preselect:
  assumes "dbPath w = Some dbp" and "dbp \<noteq> []" and "getProjects pr dbp = Inr ps"
    and "ps \<noteq> []" and "\<not> truthy (projectId q)"
  shows "get_projects pr w q =
     (case getBranchesByProjectId pr dbp (row_id (hd (sort_latest_first ps))) of
        Inl err \<Rightarrow> Failed 500 ''Error fetching data''
      | Inr bs \<Rightarrow>
          render_projects q (sort_latest_first ps) (sort_latest_first bs) []
            (row_id (hd (sort_latest_first ps)))
            (if bs \<noteq> [] then row_id (hd (sort_latest_first bs)) else branchId q))"
  using assms by (simp add: get_projects_def Let_def split: sum.splits)

text \<open>With a project id the states of the resolved branch are fetched: through the
  search when one of task, epic, iteration, agent is truthy, unfiltered otherwise.\<close>

lemma get_projects_explicit:
  assumes "dbPath w = Some dbp" and "dbp \<noteq> []" and "getProjects pr dbp = Inr ps"
    and "truthy (projectId q)" and "getBranchesByProjectId pr dbp (projectId q) = Inr bs"
  shows "get_projects pr w q =
     (let bid = (if bs \<noteq> [] then row_id (hd (sort_latest_first bs)) else branchId q)
      in if truthy bid then
           (case (if truthy (task q) \<or> truthy (epic q) \<or> truthy (iteration q) \<or> truthy (agent q)
                  then searchProjectStates pr dbp
                         \<lparr>task = task q, epic = epic q, iteration = iteration q,
                          llm_request = llm_request q, agent = agent q, branchId = bid\<rparr>
                  else getProjectStatesByBranchId pr dbp bid) of
              Inl err \<Rightarrow> Failed 500 ''Error fetching data''
            | Inr states \<Rightarrow>
                render_projects q (sort_latest_first ps) (sort_latest_first bs) states
                  (projectId q) bid)
         else render_projects q (sort_latest_first ps) (sort_latest_first bs) []
                (projectId q) bid)"
  using assms by (simp add: get_projects_def Let_def split: sum.splits)

lemma preselected_states_empty:
  assumes "dbPath w = Some dbp" and "dbp \<noteq> []" and "getProjects pr dbp = Inr ps"
    and "ps \<noteq> []" and "\<not> truthy (projectId q)" and "get_projects pr w q = Rendered v"
  shows "projectStates v = []"
  using assms(6) unfolding get_projects_preselect [OF assms(1-5)]
  by (auto simp: render_projects_def split: sum.splits)

section \<open>Uploads that fail structural validation\<close>

text \<open>
  Claim C1. When an upload passes the filter and the size limit but SQLite's read-only
  open fails on the stored file, the route stores the file, probes it and unlinks it,
  in this order: afterwards no file exists under the name it was stored at, the
  response is the 400 \<^verbatim>\<open>Error: Uploaded file is not a valid SQLite database\<close>, and the
  active handle is the one from before the request.
\<close>

theorem upload_invalid_removed:
  assumes "fieldname file = ''databaseFile''" and "fileFilter file"
    and "fsize (content file) \<le> fileSize_limit" and "\<not> sqlite_ok (content file)"
  shows "files (fst (post_upload d now (Some file) w))
           (path_join [uploadsDir d, storage_filename now file]) = None
         \<and> snd (post_upload d now (Some file) w)
             = Send 400 ''Error: Uploaded file is not a valid SQLite database''
         \<and> dbPath (fst (post_upload d now (Some file) w)) = dbPath w
         \<and> calls (fst (post_upload d now (Some file) w))
             = calls w @ [DiskWrite (path_join [uploadsDir d, storage_filename now file]),
                          SqliteOpen (path_join [uploadsDir d, storage_filename now file]),
                          FsUnlink (path_join [uploadsDir d, storage_filename now file])]"
  using assms by (simp add: post_upload_invalid)

theorem upload_invalid_removed_witness:
  "fieldname junk_upload = ''databaseFile'' \<and> fileFilter junk_upload
   \<and> fsize (content junk_upload) \<le> fileSize_limit \<and> \<not> sqlite_ok (content junk_upload)
   \<and> files (fst (post_upload ''/app/routes'' 17 (Some junk_upload) example_world))
        ''/app/uploads/databaseFile-17.db'' = None
   \<and> snd (post_upload ''/app/routes'' 17 (Some junk_upload) example_world)
       = Send 400 ''Error: Uploaded file is not a valid SQLite database''"
proof -
  have h: "fieldname junk_upload = ''databaseFile''" "fsize (content junk_upload) \<le> fileSize_limit"
    "\<not> sqlite_ok (content junk_upload)"
    by (simp_all add: junk_upload_def fileSize_limit_def)
  show ?thesis
    using upload_invalid_removed [OF h(1) fileFilter_junk h(2) h(3), of "''/app/routes''" 17 example_world] h
    by (simp add: fileFilter_junk uploadsDir_app filename_junk join_stored_junk)
qed

section \<open>The deletion guard\<close>

text \<open>
  Claim C2. A deletion request whose name resolves to the active database handle is
  refused with a client error and changes nothing: the world after the request is the
  world before it, so no file system call was made. For any other non-empty name the
  route hands the resolved path to \<^verbatim>\<open>fs.unlink\<close>: the world after the request is the one
  the unlink leaves, and the response is a redirect when the unlink succeeded and a
  500 when it failed.
\<close>

theorem delete_database_guard:
  "(dbPath w = Some (path_join [uploadsDir d, name]) \<longrightarrow>
      fst (delete_database d w (JStr name)) = w
      \<and> is_client_error (snd (delete_database d w (JStr name))))
   \<and> (name \<noteq> [] \<and> dbPath w \<noteq> Some (path_join [uploadsDir d, name]) \<longrightarrow>
      fst (delete_database d w (JStr name)) = snd (fs_unlink (path_join [uploadsDir d, name]) w)
      \<and> snd (delete_database d w (JStr name)) =
          (case fst (fs_unlink (path_join [uploadsDir d, name]) w) of
             None \<Rightarrow> Redirect ''/''
           | Some err \<Rightarrow> Send 500 ''Error deleting database file.''))"
  by (auto simp: delete_database_def is_client_error_def Let_def split: prod.splits option.splits)

theorem delete_database_guard_witness:
  "dbPath example_world = Some (path_join [uploadsDir ''/app/routes'', ''a.db''])
   \<and> fst (delete_database ''/app/routes'' example_world (JStr ''a.db'')) = example_world
   \<and> is_client_error (snd (delete_database ''/app/routes'' example_world (JStr ''a.db'')))
   \<and> ''b.db'' \<noteq> []
   \<and> dbPath example_world \<noteq> Some (path_join [uploadsDir ''/app/routes'', ''b.db''])
   \<and> files (fst (delete_database ''/app/routes'' example_world (JStr ''b.db'')))
        ''/app/uploads/b.db'' = None
   \<and> snd (delete_database ''/app/routes'' example_world (JStr ''b.db'')) = Redirect ''/''"
  using delete_database_guard [of example_world "''/app/routes''" "''a.db''"]
        delete_database_guard [of example_world "''/app/routes''" "''b.db''"]
  by (simp add: uploadsDir_app join_a_db join_b_db example_world_def fs_unlink_def)

section \<open>The session invariant\<close>






section \<open>Browsing without parameters\<close>

text \<open>
  Claim C4, evaluated. Projects \<^verbatim>\<open>p1\<close> (later) and \<^verbatim>\<open>p2\<close> (earlier), \<^verbatim>\<open>p1\<close> with branch
  \<^verbatim>\<open>b1\<close>, no query parameters: the view selects \<^verbatim>\<open>p1\<close> and \<^verbatim>\<open>b1\<close>, but its state list
  is empty, while the unfiltered state list of \<^verbatim>\<open>b1\<close> has two entries. The states are
  fetched only on the path taken when the request names a project.
\<close>

theorem browse_no_params_states_empty:
  "get_projects example_provider example_world no_params =
     Rendered \<lparr>task = JUndefined, epic = JUndefined, iteration = JUndefined,
               llm_request = JUndefined, agent = JUndefined,
               projects = [\<lparr>row_id = JStr ''p1'', created_at = 2000\<rparr>,
                           \<lparr>row_id = JStr ''p2'', created_at = 1000\<rparr>],
               branches = [\<lparr>row_id = JStr ''b1'', created_at = 2500\<rparr>],
               projectStates = [],
               selectedProjectId = JStr ''p1'', selectedBranchId = JStr ''b1''\<rparr>
   \<and> getProjectStatesByBranchId example_provider ''/app/uploads/a.db'' (JStr ''b1'')
       = Inr [''state-1'', ''state-2'']"
  by (simp add: get_projects_def example_provider_def example_world_def no_params_def
        example_projects_sorted example_branches_sorted render_projects_def Let_def)

section \<open>The probe connection\<close>

text \<open>
  Claim C5. No exit path of the upload route leaves a probe connection open: the
  connections held after the request are those held before it. On the invalid-format
  path the open fails and holds nothing, so the world in which the stored file is
  unlinked has the connections from before the request: no probe connection is held
  when the file is deleted. On the success path the open holds one more connection
  on the stored file, and the calls are write, open, close, activate: the probe is
  closed before the database is activated.
\<close>

theorem upload_probe_connection:
  "handles (fst (post_upload d now part w)) = handles w
   \<and> (\<forall>file. part = Some file \<and> fieldname file = ''databaseFile'' \<and> fileFilter file
        \<and> fsize (content file) \<le> fileSize_limit \<and> \<not> sqlite_ok (content file) \<longrightarrow>
        \<not> fst (sqlite_open (path_join [uploadsDir d, storage_filename now file])
                 (snd (upload d now part w)))
        \<and> handles (snd (sqlite_open (path_join [uploadsDir d, storage_filename now file])
                          (snd (upload d now part w)))) = handles w
        \<and> snd (fs_unlink (path_join [uploadsDir d, storage_filename now file])
                 (snd (sqlite_open (path_join [uploadsDir d, storage_filename now file])
                        (snd (upload d now part w)))))
            = fst (post_upload d now part w)
        \<and> calls (fst (post_upload d now part w))
            = calls w @ [DiskWrite (path_join [uploadsDir d, storage_filename now file]),
                         SqliteOpen (path_join [uploadsDir d, storage_filename now file]),
                         FsUnlink (path_join [uploadsDir d, storage_filename now file])])
   \<and> (\<forall>file. part = Some file \<and> fieldname file = ''databaseFile'' \<and> fileFilter file
        \<and> fsize (content file) \<le> fileSize_limit \<and> sqlite_ok (content file) \<longrightarrow>
        fst (sqlite_open (path_join [uploadsDir d, storage_filename now file])
               (snd (upload d now part w)))
        \<and> handles (snd (sqlite_open (path_join [uploadsDir d, storage_filename now file])
                          (snd (upload d now part w))))
              (path_join [uploadsDir d, storage_filename now file])
            = handles w (path_join [uploadsDir d, storage_filename now file]) + 1
        \<and> calls (fst (post_upload d now part w))
            = calls w @ [DiskWrite (path_join [uploadsDir d, storage_filename now file]),
                         SqliteOpen (path_join [uploadsDir d, storage_filename now file]),
                         SqliteClose (path_join [uploadsDir d, storage_filename now file]),
                         SetGlobal (path_join [uploadsDir d, storage_filename now file])])"
proof (intro conjI allI impI)
  show "handles (fst (post_upload d now part w)) = handles w"
    by (simp add: post_upload_def upload_def Let_def sqlite_open_def sqlite_close_def
          set_global_def fs_unlink_def split: option.splits)
qed (simp_all add: post_upload_valid post_upload_invalid upload_stored sqlite_open_def
       fs_unlink_def)

theorem upload_probe_connection_witness:
  "fieldname good_upload = ''databaseFile'' \<and> fileFilter good_upload
   \<and> fsize (content good_upload) \<le> fileSize_limit \<and> sqlite_ok (content good_upload)
   \<and> calls (fst (post_upload ''/app/routes'' 17 (Some good_upload) example_world))
       = [DiskWrite ''/app/uploads/databaseFile-17.SQLite'',
          SqliteOpen ''/app/uploads/databaseFile-17.SQLite'',
          SqliteClose ''/app/uploads/databaseFile-17.SQLite'',
          SetGlobal ''/app/uploads/databaseFile-17.SQLite'']
   \<and> handles (fst (post_upload ''/app/routes'' 17 (Some good_upload) example_world))
       = handles example_world
   \<and> fieldname junk_upload = ''databaseFile'' \<and> fileFilter junk_upload
   \<and> fsize (content junk_upload) \<le> fileSize_limit \<and> \<not> sqlite_ok (content junk_upload)
   \<and> handles (snd (sqlite_open ''/app/uploads/databaseFile-17.db''
                     (snd (upload ''/app/routes'' 17 (Some junk_upload) example_world))))
       = handles example_world
   \<and> calls (fst (post_upload ''/app/routes'' 17 (Some junk_upload) example_world))
       = [DiskWrite ''/app/uploads/databaseFile-17.db'',
          SqliteOpen ''/app/uploads/databaseFile-17.db'',
          FsUnlink ''/app/uploads/databaseFile-17.db'']
   \<and> handles (fst (post_upload ''/app/routes'' 17 (Some junk_upload) example_world))
       = handles example_world"
proof -
  have g: "fieldname good_upload = ''databaseFile''"
    "fsize (content good_upload) \<le> fileSize_limit" "sqlite_ok (content good_upload)"
    by (simp_all add: good_upload_def fileSize_limit_def)
  have j: "fieldname junk_upload = ''databaseFile''"
    "fsize (content junk_upload) \<le> fileSize_limit" "\<not> sqlite_ok (content junk_upload)"
    by (simp_all add: junk_upload_def fileSize_limit_def)
  have e: "calls example_world = []"
    by (simp add: example_world_def)
  show ?thesis
    using upload_probe_connection [of "''/app/routes''" 17 "Some good_upload" example_world]
      upload_probe_connection [of "''/app/routes''" 17 "Some junk_upload" example_world]
      g j fileFilter_good fileFilter_junk e
    by (simp add: uploadsDir_app filename_good filename_junk join_stored_good join_stored_junk)
qed



section \<open>Responses of the upload route\<close>

text \<open>
  Claim C6, as the route has it. No file: 400 \<^verbatim>\<open>Error: No file selected\<close>, nothing
  changed. A bad extension: status 500 with the filter's message, nothing stored. A
  file over the size limit: status 500 with \<^verbatim>\<open>File too large\<close>, nothing left under
  the name it was written to. A file SQLite cannot
  open: 400 with \<^verbatim>\<open>Error: Uploaded file is not a valid SQLite database\<close>. Otherwise
  the stored file becomes the active database and the response redirects to
  \<^verbatim>\<open>/projects\<close>.
\<close>

theorem upload_replies:
  "(part = None \<longrightarrow>
      post_upload d now part w = (w, Send 400 ''Error: No file selected''))
   \<and> (\<forall>file. part = Some file \<and> fieldname file = ''databaseFile'' \<and> \<not> fileFilter file \<longrightarrow>
        post_upload d now part w = (w, Send 500 fileFilter_message))
   \<and> (\<forall>file. part = Some file \<and> fieldname file = ''databaseFile'' \<and> fileFilter file
        \<and> fileSize_limit < fsize (content file) \<longrightarrow>
        snd (post_upload d now part w) = Send 500 ''File too large''
        \<and> files (fst (post_upload d now part w))
              (path_join [uploadsDir d, storage_filename now file]) = None)
   \<and> (\<forall>file. part = Some file \<and> fieldname file = ''databaseFile'' \<and> fileFilter file
        \<and> fsize (content file) \<le> fileSize_limit \<and> \<not> sqlite_ok (content file) \<longrightarrow>
        snd (post_upload d now part w)
          = Send 400 ''Error: Uploaded file is not a valid SQLite database'')
   \<and> (\<forall>file. part = Some file \<and> fieldname file = ''databaseFile'' \<and> fileFilter file
        \<and> fsize (content file) \<le> fileSize_limit \<and> sqlite_ok (content file) \<longrightarrow>
        snd (post_upload d now part w) = Redirect ''/projects''
        \<and> dbPath (fst (post_upload d now part w))
            = Some (path_join [uploadsDir d, storage_filename now file])
        \<and> files (fst (post_upload d now part w))
              (path_join [uploadsDir d, storage_filename now file]) = Some (content file))"
  by (simp add: post_upload_none post_upload_filtered post_upload_oversize
        post_upload_invalid post_upload_valid)

theorem upload_replies_witness:
  "post_upload ''/app/routes'' 17 None example_world
     = (example_world, Send 400 ''Error: No file selected'')
   \<and> post_upload ''/app/routes'' 17 (Some report_upload) example_world
       = (example_world, Send 500 fileFilter_message)
   \<and> snd (post_upload ''/app/routes'' 17 (Some huge_upload) example_world)
       = Send 500 ''File too large''
   \<and> snd (post_upload ''/app/routes'' 17 (Some junk_upload) example_world)
       = Send 400 ''Error: Uploaded file is not a valid SQLite database''
   \<and> snd (post_upload ''/app/routes'' 17 (Some good_upload) example_world)
       = Redirect ''/projects''
   \<and> dbPath (fst (post_upload ''/app/routes'' 17 (Some good_upload) example_world))
       = Some ''/app/uploads/databaseFile-17.SQLite''"
  using upload_replies [of None "''/app/routes''" 17 example_world]
    upload_replies [of "Some report_upload" "''/app/routes''" 17 example_world]
    upload_replies [of "Some huge_upload" "''/app/routes''" 17 example_world]
    upload_replies [of "Some junk_upload" "''/app/routes''" 17 example_world]
    upload_replies [of "Some good_upload" "''/app/routes''" 17 example_world]
    fileFilter_report fileFilter_huge fileFilter_junk fileFilter_good
  by (simp add: report_upload_def huge_upload_def junk_upload_def good_upload_def
        fileSize_limit_def uploadsDir_app filename_good [unfolded good_upload_def] join_stored_good)

text \<open>
  Claim C6 as stated fails: a file named \<^verbatim>\<open>report.txt\<close> and a file over the size limit
  are answered with status 500, which is not a client error.
\<close>

theorem upload_validation_failure_is_500:
  "snd (post_upload ''/app/routes'' 17 (Some report_upload) example_world)
     = Send 500 fileFilter_message
   \<and> \<not> is_client_error (snd (post_upload ''/app/routes'' 17 (Some report_upload) example_world))
   \<and> snd (post_upload ''/app/routes'' 17 (Some huge_upload) example_world)
       = Send 500 ''File too large''
   \<and> \<not> is_client_error (snd (post_upload ''/app/routes'' 17 (Some huge_upload) example_world))"
proof -
  have r: "fieldname report_upload = ''databaseFile''" by (simp add: report_upload_def)
  have h: "fieldname huge_upload = ''databaseFile''" "fileSize_limit < fsize (content huge_upload)"
    by (simp_all add: huge_upload_def fileSize_limit_def)
  show ?thesis
    by (simp add: post_upload_filtered [OF r fileFilter_report]
          post_upload_oversize [OF h(1) fileFilter_huge h(2)] is_client_error_def)
qed

section \<open>Filters on a preselected branch\<close>

text \<open>
  Claim C7, evaluated. A request with the task filter \<^verbatim>\<open>fix\<close> and no project id
  resolves branch \<^verbatim>\<open>b1\<close> by preselection, yet the search is not run: the state list
  is empty although the search for these criteria on \<^verbatim>\<open>b1\<close> has a result. Lemma
  \<open>get_projects_explicit\<close> shows the choice between search and unfiltered list that
  the claim describes on the path taken when the request names a project.
\<close>

theorem browse_preselected_filter_ignored:
  "get_projects example_provider example_world (no_params\<lparr>task := JStr ''fix''\<rparr>) =
     Rendered \<lparr>task = JStr ''fix'', epic = JUndefined, iteration = JUndefined,
               llm_request = JUndefined, agent = JUndefined,
               projects = [\<lparr>row_id = JStr ''p1'', created_at = 2000\<rparr>,
                           \<lparr>row_id = JStr ''p2'', created_at = 1000\<rparr>],
               branches = [\<lparr>row_id = JStr ''b1'', created_at = 2500\<rparr>],
               projectStates = [],
               selectedProjectId = JStr ''p1'', selectedBranchId = JStr ''b1''\<rparr>
   \<and> searchProjectStates example_provider ''/app/uploads/a.db''
         \<lparr>task = JStr ''fix'', epic = JUndefined, iteration = JUndefined,
          llm_request = JUndefined, agent = JUndefined, branchId = JStr ''b1''\<rparr>
       = Inr [''state-2'']"
  by (simp add: get_projects_def example_provider_def example_world_def no_params_def
        example_projects_sorted example_branches_sorted render_projects_def Let_def)

section \<open>Preselecting the latest project\<close>



section \<open>The branch of an explicitly selected project\<close>

text \<open>
  Claim C9. When the request names a project and the provider returns at least one
  branch for it, there is a branch with the maximum \<^verbatim>\<open>created_at\<close> among that
  project's branches (the first such in the provider's order) that fixes the response
  whatever \<^verbatim>\<open>branchId\<close> the query carries: the route renders the view that selects
  this branch, with the states fetched for it (none when its id is falsy), and answers
  500 only when that state query is rejected.
\<close>

theorem explicit_project_latest_branch:
  assumes "dbPath w = Some dbp" and "dbp \<noteq> []" and "getProjects pr dbp = Inr ps"
    and "truthy (projectId q)" and "getBranchesByProjectId pr dbp (projectId q) = Inr bs"
    and "bs \<noteq> []"
  shows "\<exists>b\<in>set bs.
           (\<forall>b'\<in>set bs. created_at b' \<le> created_at b)
           \<and> b = hd (filter (\<lambda>r. created_at r = created_at b) bs)
           \<and> (\<forall>other. get_projects pr w (q\<lparr>branchId := other\<rparr>) =
                (if truthy (row_id b) then
                   (case (if truthy (task q) \<or> truthy (epic q)
                             \<or> truthy (iteration q) \<or> truthy (agent q)
                          then searchProjectStates pr dbp
                                 \<lparr>task = task q, epic = epic q, iteration = iteration q,
                                  llm_request = llm_request q, agent = agent q,
                                  branchId = row_id b\<rparr>
                          else getProjectStatesByBranchId pr dbp (row_id b)) of
                      Inl err \<Rightarrow> Failed 500 ''Error fetching data''
                    | Inr states \<Rightarrow>
                        Rendered \<lparr>task = task q, epic = epic q, iteration = iteration q,
                                  llm_request = llm_request q, agent = agent q,
                                  projects = sort_latest_first ps,
                                  branches = sort_latest_first bs,
                                  projectStates = states,
                                  selectedProjectId = projectId q,
                                  selectedBranchId = row_id b\<rparr>)
                 else
                   Rendered \<lparr>task = task q, epic = epic q, iteration = iteration q,
                             llm_request = llm_request q, agent = agent q,
                             projects = sort_latest_first ps,
                             branches = sort_latest_first bs,
                             projectStates = [],
                             selectedProjectId = projectId q,
                             selectedBranchId = row_id b\<rparr>))"
proof (intro bexI [of _ "hd (sort_latest_first bs)"] conjI allI)
  show "hd (sort_latest_first bs) \<in> set bs"
    by (rule sort_latest_first_hd(1) [OF assms(6)])
  show "\<forall>b'\<in>set bs. created_at b' \<le> created_at (hd (sort_latest_first bs))"
    by (rule sort_latest_first_hd(2) [OF assms(6)])
  show "hd (sort_latest_first bs)
          = hd (filter (\<lambda>r. created_at r = created_at (hd (sort_latest_first bs))) bs)"
    by (rule sort_latest_first_hd(3) [OF assms(6)])
next
  fix other
  have p: "truthy (projectId (q\<lparr>branchId := other\<rparr>))"
    and b: "getBranchesByProjectId pr dbp (projectId (q\<lparr>branchId := other\<rparr>)) = Inr bs"
    using assms(4,5) by simp_all
  show "get_projects pr w (q\<lparr>branchId := other\<rparr>) =
          (if truthy (row_id (hd (sort_latest_first bs))) then
             (case (if truthy (task q) \<or> truthy (epic q)
                       \<or> truthy (iteration q) \<or> truthy (agent q)
                    then searchProjectStates pr dbp
                           \<lparr>task = task q, epic = epic q, iteration = iteration q,
                            llm_request = llm_request q, agent = agent q,
                            branchId = row_id (hd (sort_latest_first bs))\<rparr>
                    else getProjectStatesByBranchId pr dbp (row_id (hd (sort_latest_first bs)))) of
                Inl err \<Rightarrow> Failed 500 ''Error fetching data''
              | Inr states \<Rightarrow>
                  Rendered \<lparr>task = task q, epic = epic q, iteration = iteration q,
                            llm_request = llm_request q, agent = agent q,
                            projects = sort_latest_first ps,
                            branches = sort_latest_first bs,
                            projectStates = states,
                            selectedProjectId = projectId q,
                            selectedBranchId = row_id (hd (sort_latest_first bs))\<rparr>)
           else
             Rendered \<lparr>task = task q, epic = epic q, iteration = iteration q,
                       llm_request = llm_request q, agent = agent q,
                       projects = sort_latest_first ps,
                       branches = sort_latest_first bs,
                       projectStates = [],
                       selectedProjectId = projectId q,
                       selectedBranchId = row_id (hd (sort_latest_first bs))\<rparr>)"
    unfolding get_projects_explicit [OF assms(1-3) p b]
    using assms(6) by (simp add: render_projects_def Let_def split: sum.splits)
qed

theorem explicit_project_latest_branch_witness:
  "dbPath example_world = Some ''/app/uploads/a.db'' \<and> ''/app/uploads/a.db'' \<noteq> []
   \<and> getProjects two_branch_provider ''/app/uploads/a.db''
       = Inr [\<lparr>row_id = JStr ''p1'', created_at = 2000\<rparr>]
   \<and> truthy (projectId (no_params\<lparr>projectId := JStr ''p1''\<rparr>))
   \<and> getBranchesByProjectId two_branch_provider ''/app/uploads/a.db''
        (projectId (no_params\<lparr>projectId := JStr ''p1''\<rparr>))
       = Inr [\<lparr>row_id = JStr ''b1'', created_at = 2500\<rparr>,
              \<lparr>row_id = JStr ''b2'', created_at = 3000\<rparr>]
   \<and> get_projects two_branch_provider example_world
        (no_params\<lparr>projectId := JStr ''p1''\<rparr>\<lparr>branchId := JStr ''b1''\<rparr>)
       = Rendered \<lparr>task = JUndefined, epic = JUndefined, iteration = JUndefined,
                   llm_request = JUndefined, agent = JUndefined,
                   projects = [\<lparr>row_id = JStr ''p1'', created_at = 2000\<rparr>],
                   branches = [\<lparr>row_id = JStr ''b2'', created_at = 3000\<rparr>,
                               \<lparr>row_id = JStr ''b1'', created_at = 2500\<rparr>],
                   projectStates = [''state-3''],
                   selectedProjectId = JStr ''p1'', selectedBranchId = JStr ''b2''\<rparr>"
proof -
  let ?q = "no_params\<lparr>projectId := JStr ''p1''\<rparr>"
  let ?b1 = "\<lparr>row_id = JStr ''b1'', created_at = 2500\<rparr>"
  let ?b2 = "\<lparr>row_id = JStr ''b2'', created_at = 3000\<rparr>"
  have a: "dbPath example_world = Some ''/app/uploads/a.db''" "''/app/uploads/a.db'' \<noteq> []"
    by (simp_all add: example_world_def)
  have b: "getProjects two_branch_provider ''/app/uploads/a.db''
       = Inr [\<lparr>row_id = JStr ''p1'', created_at = 2000\<rparr>]"
    by (simp add: two_branch_provider_def)
  have c: "truthy (projectId ?q)" by simp
  have d: "getBranchesByProjectId two_branch_provider ''/app/uploads/a.db'' (projectId ?q)
       = Inr [?b1, ?b2]"
    by (simp add: two_branch_provider_def)
  have e: "[?b1, ?b2] \<noteq> []" by simp
  from explicit_project_latest_branch [OF a b c d e]
  obtain br where br: "br \<in> set [?b1, ?b2]"
      and latest: "\<forall>b'\<in>set [?b1, ?b2]. created_at b' \<le> created_at br"
      and page: "\<forall>other. get_projects two_branch_provider example_world (?q\<lparr>branchId := other\<rparr>) =
                (if truthy (row_id br) then
                   (case (if truthy (task ?q) \<or> truthy (epic ?q)
                             \<or> truthy (iteration ?q) \<or> truthy (agent ?q)
                          then searchProjectStates two_branch_provider ''/app/uploads/a.db''
                                 \<lparr>task = task ?q, epic = epic ?q, iteration = iteration ?q,
                                  llm_request = llm_request ?q, agent = agent ?q,
                                  branchId = row_id br\<rparr>
                          else getProjectStatesByBranchId two_branch_provider
                                 ''/app/uploads/a.db'' (row_id br)) of
                      Inl err \<Rightarrow> Failed 500 ''Error fetching data''
                    | Inr states \<Rightarrow>
                        Rendered \<lparr>task = task ?q, epic = epic ?q, iteration = iteration ?q,
                                  llm_request = llm_request ?q, agent = agent ?q,
                                  projects = sort_latest_first
                                    [\<lparr>row_id = JStr ''p1'', created_at = 2000\<rparr>],
                                  branches = sort_latest_first [?b1, ?b2],
                                  projectStates = states,
                                  selectedProjectId = projectId ?q,
                                  selectedBranchId = row_id br\<rparr>)
                 else
                   Rendered \<lparr>task = task ?q, epic = epic ?q, iteration = iteration ?q,
                             llm_request = llm_request ?q, agent = agent ?q,
                             projects = sort_latest_first
                               [\<lparr>row_id = JStr ''p1'', created_at = 2000\<rparr>],
                             branches = sort_latest_first [?b1, ?b2],
                             projectStates = [],
                             selectedProjectId = projectId ?q,
                             selectedBranchId = row_id br\<rparr>)"
    by blast
  from br latest have "br = ?b2" by auto
  with page [rule_format, of "JStr ''b1''"]
  have "get_projects two_branch_provider example_world (?q\<lparr>branchId := JStr ''b1''\<rparr>)
       = Rendered \<lparr>task = JUndefined, epic = JUndefined, iteration = JUndefined,
                   llm_request = JUndefined, agent = JUndefined,
                   projects = [\<lparr>row_id = JStr ''p1'', created_at = 2000\<rparr>],
                   branches = [?b2, ?b1],
                   projectStates = [''state-3''],
                   selectedProjectId = JStr ''p1'', selectedBranchId = JStr ''b2''\<rparr>"
    by (simp add: two_branch_provider_def no_params_def two_branches_sorted one_project_sorted)
  with a b c d show ?thesis by simp
qed



section \<open>Names that leave the uploads directory\<close>

text \<open>
  Claim C10. Select activates the joined path of any non-empty name without a
  containment check. For an installation under \<^verbatim>\<open>/app\<close>, the name \<^verbatim>\<open>../secret.db\<close>
  resolves to \<^verbatim>\<open>/app/secret.db\<close>, outside the uploads directory: select makes it the
  active database, delete unlinks it when it exists and is not active, and rename
  moves a stored database onto it.
\<close>

theorem join_escapes_uploads:
  "(name \<noteq> [] \<longrightarrow>
      dbPath (fst (select_database d w (JStr name))) = Some (path_join [uploadsDir d, name]))
   \<and> \<not> within_dir (uploadsDir ''/app/routes'')
         (path_join [uploadsDir ''/app/routes'', ''../secret.db''])
   \<and> dbPath (fst (select_database ''/app/routes'' w (JStr ''../secret.db'')))
       = Some ''/app/secret.db''
   \<and> (files w ''/app/secret.db'' \<noteq> None \<and> dbPath w \<noteq> Some ''/app/secret.db'' \<longrightarrow>
        files (fst (delete_database ''/app/routes'' w (JStr ''../secret.db'')))
          ''/app/secret.db'' = None
        \<and> snd (delete_database ''/app/routes'' w (JStr ''../secret.db'')) = Redirect ''/'')
   \<and> (files w ''/app/uploads/a.db'' \<noteq> None \<longrightarrow>
        files (fst (rename_database ''/app/routes'' w (JStr ''a.db'') (JStr ''../secret.db'')))
          ''/app/secret.db'' = files w ''/app/uploads/a.db'')"
  by (auto simp: uploadsDir_app join_secret join_a_db secret_outside select_database_def
        delete_database_def rename_database_def set_global_def fs_unlink_def fs_rename_def Let_def)

theorem join_escapes_uploads_witness:
  "''../secret.db'' \<noteq> []
   \<and> dbPath (fst (select_database ''/app/routes'' outside_world (JStr ''../secret.db'')))
       = Some ''/app/secret.db''
   \<and> files outside_world ''/app/secret.db'' \<noteq> None
   \<and> dbPath outside_world \<noteq> Some ''/app/secret.db''
   \<and> files outside_world ''/app/uploads/a.db'' \<noteq> None
   \<and> files (fst (delete_database ''/app/routes'' outside_world (JStr ''../secret.db'')))
         ''/app/secret.db'' = None
   \<and> files (fst (rename_database ''/app/routes'' outside_world (JStr ''a.db'')
         (JStr ''../secret.db''))) ''/app/secret.db'' = Some \<lparr>fsize = 4096, sqlite_ok = True\<rparr>"
  using join_escapes_uploads [of "''../secret.db''" "''/app/routes''" outside_world]
  by (simp add: outside_world_def uploadsDir_app join_secret)

end
